theory Spec2Isabelle
  imports Main
begin

section \<open>datax: XML element sequences as tabular records\<close>

text \<open>
  A shallow embedding of \<^verbatim>\<open>datax/transform.py\<close>: the classes
  \<^verbatim>\<open>FieldExtractor\<close> and \<^verbatim>\<open>XMLDocTransformer\<close>. Every
  exception the Python can raise is a value of \<open>error\<close>, and a function that can raise
  returns \<open>error + 'a\<close> with \<open>Inl\<close> for the exception.
\<close>

subsection \<open>Exceptions\<close>

text \<open>
  The exceptions of the program and of the library calls it makes.
  \<^verbatim>\<open>list.pop\<close> on an empty list raises \<open>IndexError\<close>; \<^verbatim>\<open>from_spec\<close> raises
  \<open>ValueError\<close> with its message; \<^verbatim>\<open>extract\<close> raises \<open>KeyError\<close> with the
  field name; iterating over \<^verbatim>\<open>None\<close> raises \<open>TypeError\<close>; reading a local
  variable that was never bound raises \<open>UnboundLocalError\<close>; reading an attribute that
  an object does not have raises \<open>AttributeError\<close>; the path language of the XML
  library raises \<open>SyntaxError\<close>.
\<close>

datatype error =
    IndexError
  | ValueError string
  | KeyError string
  | TypeError
  | UnboundLocalError string
  | AttributeError string
  | SyntaxError string

subsection \<open>The XML tree\<close>

text \<open>
  An \<^verbatim>\<open>xml.etree.ElementTree.Element\<close>: its tag, its attribute dictionary, its
  text (\<^verbatim>\<open>None\<close> when the element has none) and its children in document order.
  A parsed document (\<^verbatim>\<open>ElementTree\<close>) holds its root element. The attribute
  \<^verbatim>\<open>text\<close> is the selector \<open>text'\<close> here.
\<close>

datatype element =
  Element (tag: string) (attrib: "(string \<times> string) list")
          (text': "string option") (children: "element list")

datatype element_tree = ElementTree (getroot: element)

text \<open>\<^verbatim>\<open>element.get(key)\<close>: the attribute's value, \<^verbatim>\<open>None\<close> when it is absent.\<close>

definition get :: "element \<Rightarrow> string \<Rightarrow> string option" where
  "get element key = map_of (attrib element) key"

text \<open>
  \<^verbatim>\<open>element.find(path)\<close> belongs to the XML library, not to this program. It is a
  parameter of the functions that call it: given an element and a path it raises, or
  answers \<^verbatim>\<open>None\<close>, or answers the first matching element.
\<close>

type_synonym find_fun = "element \<Rightarrow> string \<Rightarrow> error + element option"

subsection \<open>Strings\<close>

text \<open>\<^verbatim>\<open>s.split(sep)\<close> for a one-character separator: never the empty list.\<close>

fun str_split :: "char \<Rightarrow> string \<Rightarrow> string list" where
  "str_split sep [] = [[]]"
| "str_split sep (c # cs) =
     (if c = sep then [] # str_split sep cs
      else (case str_split sep cs of
              [] \<Rightarrow> [[c]]
            | p # ps \<Rightarrow> (c # p) # ps))"

text \<open>\<^verbatim>\<open>s.startswith(prefix)\<close>.\<close>

definition startswith :: "string \<Rightarrow> string \<Rightarrow> bool" where
  "startswith s pre = (take (length pre) s = pre)"

text \<open>\<^verbatim>\<open>xs.pop(0)\<close>: the first element and the list without it.\<close>

definition pop0 :: "'a list \<Rightarrow> error + ('a \<times> 'a list)" where
  "pop0 xs = (case xs of [] \<Rightarrow> Inl IndexError | x # rest \<Rightarrow> Inr (x, rest))"

text \<open>
  \<^verbatim>\<open>str(value)\<close> for the values the program formats, which are a string or
  \<^verbatim>\<open>None\<close>.
\<close>

definition py_str :: "string option \<Rightarrow> error + string" where
  "py_str value = (case value of None \<Rightarrow> Inr ''None'' | Some s \<Rightarrow> Inr s)"

text \<open>
  \<^verbatim>\<open>template.format(value)\<close> is Python's own formatting language. It is a
  parameter of the constructors: given the template and the value it raises or answers a
  string.
\<close>

type_synonym format_fun = "string \<Rightarrow> string option \<Rightarrow> error + string"

subsection \<open>FieldExtractor\<close>

text \<open>
  The attributes \<^verbatim>\<open>_source\<close>, \<^verbatim>\<open>_name\<close> and \<^verbatim>\<open>_formatter\<close>; the last one
  is a callable, here a function.
\<close>

record field_extractor =
  source :: string
  name :: string
  formatter :: "string option \<Rightarrow> error + string"

definition FieldExtractor_init ::
  "format_fun \<Rightarrow> string \<Rightarrow> string \<Rightarrow> string option \<Rightarrow> field_extractor" where
  "FieldExtractor_init fmt src nm field_format =
     \<lparr> source = src, name = nm,
       formatter = (case field_format of
                      None \<Rightarrow> py_str
                    | Some f \<Rightarrow> fmt (concat [''{:'', f, ''}''])) \<rparr>"

definition from_spec :: "format_fun \<Rightarrow> string \<Rightarrow> error + field_extractor" where
  "from_spec fmt field_spec =
     (case pop0 (str_split CHR '':'' field_spec) of
        Inl e \<Rightarrow> Inl e
      | Inr (value_source, parts1) \<Rightarrow>
          (case pop0 parts1 of
             Inl e \<Rightarrow> Inl e
           | Inr (field_name, parts2) \<Rightarrow>
               (case (if parts2 \<noteq> [] then map_sum id (\<lambda>(f, _). Some f) (pop0 parts2)
                      else Inr None) of
                  Inl e \<Rightarrow> Inl e
                | Inr field_format \<Rightarrow>
                    if value_source \<notin> set [''attrib'', ''text'']
                    then Inl (ValueError (''Invalid value source: '' @ value_source))
                    else Inr (FieldExtractor_init fmt value_source field_name field_format))))"

text \<open>
  \<^verbatim>\<open>FieldExtractor.extract\<close>, here \<open>extract_field\<close>. When the source is neither of
  the two known ones, no branch binds \<^verbatim>\<open>value\<close> and the return statement raises.
\<close>

definition extract_field :: "find_fun \<Rightarrow> field_extractor \<Rightarrow> element \<Rightarrow> error + string" where
  "extract_field fnd fe element =
     (if source fe = ''attrib'' then formatter fe (get element (name fe))
      else if source fe = ''text'' then
        (case fnd element (name fe) of
           Inl e \<Rightarrow> Inl e
         | Inr None \<Rightarrow> Inl (KeyError (name fe))
         | Inr (Some child) \<Rightarrow> formatter fe (text' child))
      else Inl (UnboundLocalError ''value''))"

subsection \<open>XMLDocTransformer\<close>

text \<open>
  The attributes \<^verbatim>\<open>_index_field\<close>, \<^verbatim>\<open>_fields\<close> (here \<open>fields'\<close>) and
  \<^verbatim>\<open>_root_path\<close> that the constructor assigns.
\<close>

record transformer =
  index_field :: string
  fields' :: "field_extractor list"
  root_path :: "string option"

text \<open>
  The list comprehension over the field specifications: the first specification that
  raises ends the construction.
\<close>

fun from_specs :: "format_fun \<Rightarrow> string list \<Rightarrow> error + field_extractor list" where
  "from_specs fmt [] = Inr []"
| "from_specs fmt (field_spec # rest) =
     (case from_spec fmt field_spec of
        Inl e \<Rightarrow> Inl e
      | Inr fe \<Rightarrow>
          (case from_specs fmt rest of
             Inl e \<Rightarrow> Inl e
           | Inr fes \<Rightarrow> Inr (fe # fes)))"

text \<open>
  In Python the empty string and \<^verbatim>\<open>None\<close> are both false, so neither is
  rewritten.
\<close>

definition XMLDocTransformer_init ::
  "format_fun \<Rightarrow> string \<Rightarrow> string list \<Rightarrow> string option \<Rightarrow> error + transformer" where
  "XMLDocTransformer_init fmt idx field_specs rp =
     (case from_specs fmt field_specs of
        Inl e \<Rightarrow> Inl e
      | Inr fes \<Rightarrow>
          Inr \<lparr> index_field = idx, fields' = fes,
                root_path = (case rp of
                               None \<Rightarrow> None
                             | Some p \<Rightarrow>
                                 if p \<noteq> [] \<and> \<not> startswith p ''.//''
                                 then Some (''.//'' @ p)
                                 else Some p) \<rparr>)"

definition field_names :: "transformer \<Rightarrow> string list" where
  "field_names t = [index_field t] @ map name (fields' t)"

text \<open>
  An object is a dictionary of attributes. The constructor above assigns three of
  them; the class itself provides the methods and the property. Reading
  \<^verbatim>\<open>self.attr\<close> looks in the object, then in the class, and raises when neither
  has the name. (\<open>AClassMember\<close> only records that the class has the name: what the
  member is, or what running a property gives, is not part of the value.)
\<close>

datatype attr_value =
    AStr string
  | AFields "field_extractor list"
  | AOptStr "string option"
  | AClassMember string

definition instance_dict :: "transformer \<Rightarrow> (string \<times> attr_value) list" where
  "instance_dict t =
     [(''_index_field'', AStr (index_field t)),
      (''_fields'', AFields (fields' t)),
      (''_root_path'', AOptStr (root_path t))]"

definition class_members :: "string list" where
  "class_members = [''__init__'', ''index_field'', ''field_names'', ''transform'']"

definition getattr :: "transformer \<Rightarrow> string \<Rightarrow> error + attr_value" where
  "getattr t attr =
     (case map_of (instance_dict t) attr of
        Some v \<Rightarrow> Inr v
      | None \<Rightarrow>
          if attr \<in> set class_members then Inr (AClassMember attr)
          else Inl (AttributeError attr))"

text \<open>
  The property \<^verbatim>\<open>index_field\<close>, whose body is
  \<^verbatim>\<open>return self._index_field_name\<close>. (The record field \<open>index_field\<close> above is
  the attribute \<^verbatim>\<open>_index_field\<close>.)
\<close>

definition index_field_property :: "transformer \<Rightarrow> error + attr_value" where
  "index_field_property t = getattr t ''_index_field_name''"

subsection \<open>transform\<close>

text \<open>
  A record of the output is a Python dictionary from field names to values; the index
  is an integer and every extracted value is a string.
\<close>

datatype pyval = PyInt int | PyStr string

type_synonym item_dict = "string \<rightharpoonup> pyval"

text \<open>
  The dictionary comprehension
  \<^verbatim>\<open>{field.name: field.extract(item) for field in self._fields}\<close>: fields are
  visited in order, a later field of the same name replaces the earlier entry, and the
  first extraction that raises ends it.
\<close>

fun field_values ::
  "find_fun \<Rightarrow> field_extractor list \<Rightarrow> element \<Rightarrow> item_dict \<Rightarrow> error + item_dict" where
  "field_values fnd [] item d = Inr d"
| "field_values fnd (field # rest) item d =
     (case extract_field fnd field item of
        Inl e \<Rightarrow> Inl e
      | Inr v \<Rightarrow> field_values fnd rest item (d(name field \<mapsto> PyStr v)))"

text \<open>
  The loop \<^verbatim>\<open>for index, item in enumerate(root)\<close> with the list \<^verbatim>\<open>items\<close> it
  appends to. \<^verbatim>\<open>item_dict.update(d)\<close> is \<open>item_dict ++ d\<close>.
\<close>

fun transform_items ::
  "find_fun \<Rightarrow> transformer \<Rightarrow> (nat \<times> element) list \<Rightarrow> item_dict list
     \<Rightarrow> error + item_dict list" where
  "transform_items fnd t [] items = Inr items"
| "transform_items fnd t ((index, item) # rest) items =
     (case field_values fnd (fields' t) item Map.empty of
        Inl e \<Rightarrow> Inl e
      | Inr d \<Rightarrow>
          transform_items fnd t rest
            (items @ [[index_field t \<mapsto> PyInt (int index)] ++ d]))"

text \<open>
  The first three lines of \<^verbatim>\<open>transform\<close>: the root is the document's root, or what
  \<^verbatim>\<open>find\<close> answers for the root path, which may be \<^verbatim>\<open>None\<close>.
\<close>

definition find_root :: "find_fun \<Rightarrow> transformer \<Rightarrow> element_tree \<Rightarrow> error + element option" where
  "find_root fnd t xmldoc =
     (case root_path t of
        None \<Rightarrow> Inr (Some (getroot xmldoc))
      | Some p \<Rightarrow> fnd (getroot xmldoc) p)"

text \<open>\<^verbatim>\<open>enumerate(None)\<close> raises \<open>TypeError\<close> before the loop body runs.\<close>

definition transform :: "find_fun \<Rightarrow> transformer \<Rightarrow> element_tree \<Rightarrow> error + item_dict list" where
  "transform fnd t xmldoc =
     (case find_root fnd t xmldoc of
        Inl e \<Rightarrow> Inl e
      | Inr None \<Rightarrow> Inl TypeError
      | Inr (Some root) \<Rightarrow> transform_items fnd t (enumerate 0 (children root)) [])"

subsection \<open>The library calls on the inputs used below\<close>

text \<open>
  The theorems of this theory hold for every \<open>find\<close> and every \<open>format\<close>. To run
  the program on concrete documents, the two functions below give the library's answers
  on the inputs that occur there.

  \<open>etree_find\<close> covers two shapes of path: a plain tag, which selects the first child
  with that tag, and \<^verbatim>\<open>.//\<close> followed by a plain tag, which selects the first
  element below the given one, in document order, with that tag. The rest of the path
  language (steps, wildcards, predicates, parent steps) is not modelled: \<open>etree_find\<close>
  answers \<open>SyntaxError\<close> there, which is the library's answer for only some of those
  paths.
\<close>

fun iter :: "element \<Rightarrow> element list" where
  "iter (Element t a x cs) = Element t a x cs # concat (map iter cs)"

definition plain_tag :: "string \<Rightarrow> bool" where
  "plain_tag p =
     (p \<noteq> [] \<and>
      list_all (\<lambda>c. c \<in> set ''abcdefghijklmnopqrstuvwxyzABCDEFGHIJKLMNOPQRSTUVWXYZ0123456789_'') p)"

definition etree_find :: find_fun where
  "etree_find element path =
     (if plain_tag path then Inr (List.find (\<lambda>c. tag c = path) (children element))
      else if startswith path ''.//'' \<and> plain_tag (drop 3 path)
      then Inr (List.find (\<lambda>c. tag c = drop 3 path) (tl (iter element)))
      else Inl (SyntaxError path))"

text \<open>
  \<open>py_format\<close> covers two templates: \<^verbatim>\<open>{:}\<close>, which is \<^verbatim>\<open>str\<close>, and
  \<^verbatim>\<open>{:.Ns}\<close> with \<open>N\<close> of one to nine digits, which keeps the first \<open>N\<close>
  characters of a string and raises \<open>TypeError\<close> on \<^verbatim>\<open>None\<close>. The rest of the
  formatting language is not modelled: \<open>py_format\<close> answers \<open>ValueError\<close> there, which
  is Python's answer for only some of those templates.
\<close>

definition digits_value :: "string \<Rightarrow> nat" where
  "digits_value ds = foldl (\<lambda>n c. 10 * n + (of_char c - 48)) 0 ds"

definition precision_template :: "string \<Rightarrow> nat option" where
  "precision_template template =
     (let ds = take (length template - 5) (drop 3 template)
      in if startswith template ''{:.'' \<and> drop (length template - 2) template = ''s}''
            \<and> 6 \<le> length template \<and> length template \<le> 14
            \<and> list_all (\<lambda>c. c \<in> set ''0123456789'') ds
         then Some (digits_value ds) else None)"

definition py_format :: format_fun where
  "py_format template value =
     (if template = ''{:}'' then py_str value
      else (case precision_template template of
              None \<Rightarrow> Inl (ValueError template)
            | Some n \<Rightarrow>
                (case value of
                   None \<Rightarrow> Inl TypeError
                 | Some s \<Rightarrow> Inr (take n s))))"

subsection \<open>Example documents and transformers\<close>

text \<open>
  \<^verbatim>\<open><items><item a="1"><v>10</v></item><item a="2"><v>20</v></item></items>\<close>
\<close>

definition items_doc :: element_tree where
  "items_doc = ElementTree (Element ''items'' [] None
     [Element ''item'' [(''a'', ''1'')] None [Element ''v'' [] (Some ''10'') []],
      Element ''item'' [(''a'', ''2'')] None [Element ''v'' [] (Some ''20'') []]])"

text \<open>
  \<^verbatim>\<open><items><item a="1"><v>10</v></item><other a="2"/></items>\<close>
\<close>

definition partial_doc :: element_tree where
  "partial_doc = ElementTree (Element ''items'' [] None
     [Element ''item'' [(''a'', ''1'')] None [Element ''v'' [] (Some ''10'') []],
      Element ''other'' [(''a'', ''2'')] None []])"

text \<open>
  What \<^verbatim>\<open>XMLDocTransformer('ID', ['attrib:a', 'text:v'])\<close>,
  \<^verbatim>\<open>XMLDocTransformer('ID', ['attrib:a'])\<close>,
  \<^verbatim>\<open>XMLDocTransformer('a', ['attrib:a'])\<close> and
  \<^verbatim>\<open>XMLDocTransformer('ID', ['text:missing'])\<close> construct.
\<close>

definition attrib_transformer :: transformer where
  "attrib_transformer =
     \<lparr> index_field = ''ID'',
       fields' = [FieldExtractor_init py_format ''attrib'' ''a'' None],
       root_path = None \<rparr>"

definition scenario_transformer :: transformer where
  "scenario_transformer =
     \<lparr> index_field = ''ID'',
       fields' = [FieldExtractor_init py_format ''attrib'' ''a'' None,
                  FieldExtractor_init py_format ''text'' ''v'' None],
       root_path = None \<rparr>"

definition clash_transformer :: transformer where
  "clash_transformer =
     \<lparr> index_field = ''a'',
       fields' = [FieldExtractor_init py_format ''attrib'' ''a'' None],
       root_path = None \<rparr>"

definition missing_transformer :: transformer where
  "missing_transformer =
     \<lparr> index_field = ''ID'',
       fields' = [FieldExtractor_init py_format ''text'' ''missing'' None],
       root_path = None \<rparr>"

section \<open>Properties\<close>

subsection \<open>Splitting and parsing a field specification\<close>

lemma str_split_not_Nil: "str_split sep s \<noteq> []"
  by (induction s) (auto split: list.splits)

lemma length_str_split: "length (str_split sep s) = Suc (count_list s sep)"
  by (induction s) (auto split: list.splits simp: str_split_not_Nil)

lemma str_split_one_part: "length (str_split sep s) < 2 \<longleftrightarrow> sep \<notin> set s"
  by (simp add: length_str_split count_list_0_iff)

lemma startswith_iff: "startswith s pre \<longleftrightarrow> (\<exists>rest. s = pre @ rest)"
  unfolding startswith_def
  by (metis append_eq_conv_conj append_take_drop_id)

lemma from_spec_Inr:
  assumes "from_spec fmt field_spec = Inr fe"
  shows "2 \<le> length (str_split CHR '':'' field_spec)
       \<and> source fe = str_split CHR '':'' field_spec ! 0
       \<and> name fe = str_split CHR '':'' field_spec ! 1
       \<and> source fe \<in> {''attrib'', ''text''}"
proof (cases "str_split CHR '':'' field_spec")
  case Nil
  with assms show ?thesis by (simp add: from_spec_def pop0_def)
next
  case (Cons value_source parts1)
  note outer = Cons
  show ?thesis
  proof (cases parts1)
    case Nil
    with outer assms show ?thesis by (simp add: from_spec_def pop0_def)
  next
    case (Cons field_name parts2)
    with outer assms show ?thesis
      by (cases parts2)
         (auto simp: from_spec_def pop0_def FieldExtractor_init_def split: if_splits)
  qed
qed

lemma from_specs_names:
  "from_specs fmt specs = Inr fes \<Longrightarrow>
   map name fes = map (\<lambda>s. str_split CHR '':'' s ! 1) specs"
proof (induction specs arbitrary: fes)
  case Nil
  then show ?case by simp
next
  case (Cons s specs)
  then show ?case
    by (auto split: sum.splits dest: from_spec_Inr)
qed

lemma from_specs_succeeds:
  "(\<And>s. s \<in> set specs \<Longrightarrow> \<exists>fe. from_spec fmt s = Inr fe) \<Longrightarrow>
   \<exists>fes. from_specs fmt specs = Inr fes"
proof (induction specs)
  case Nil
  then show ?case by simp
next
  case (Cons s specs)
  from Cons.prems[of s] obtain fe where fe: "from_spec fmt s = Inr fe" by auto
  have "\<exists>fes. from_specs fmt specs = Inr fes"
    by (rule Cons.IH) (simp add: Cons.prems)
  with fe show ?case by auto
qed

subsection \<open>The dictionary of one item\<close>

lemma field_values_all_extracted:
  "field_values fnd fs item d = Inr d' \<Longrightarrow> f \<in> set fs \<Longrightarrow>
   \<exists>v. extract_field fnd f item = Inr v"
  by (induction fs arbitrary: d) (auto split: sum.splits)

lemma field_values_succeeds:
  "(\<And>f. f \<in> set fs \<Longrightarrow> \<exists>v. extract_field fnd f item = Inr v) \<Longrightarrow>
   \<exists>d'. field_values fnd fs item d = Inr d'"
proof (induction fs arbitrary: d)
  case Nil
  then show ?case by simp
next
  case (Cons a fs)
  from Cons.prems[of a] obtain v where v: "extract_field fnd a item = Inr v" by auto
  have "\<exists>d'. field_values fnd fs item (d(name a \<mapsto> PyStr v)) = Inr d'"
    by (rule Cons.IH) (simp add: Cons.prems)
  with v show ?case by simp
qed

lemma field_values_other_key:
  "field_values fnd fs item d = Inr d' \<Longrightarrow> k \<notin> name ` set fs \<Longrightarrow> d' k = d k"
  by (induction fs arbitrary: d) (auto split: sum.splits)

text \<open>Of several fields with one name, the last one's value stays in the dictionary.\<close>

lemma field_values_last_wins:
  "field_values fnd fs item d = Inr d' \<Longrightarrow> f \<in> set fs \<Longrightarrow> name f = k \<Longrightarrow>
   \<exists>v. extract_field fnd (last (filter (\<lambda>g. name g = k) fs)) item = Inr v
        \<and> d' k = Some (PyStr v)"
proof (induction fs arbitrary: d f)
  case Nil
  then show ?case by simp
next
  case (Cons a fs)
  from Cons.prems(1) obtain v where v: "extract_field fnd a item = Inr v"
    and rest: "field_values fnd fs item (d(name a \<mapsto> PyStr v)) = Inr d'"
    by (auto split: sum.splits)
  show ?case
  proof (cases "\<exists>g \<in> set fs. name g = k")
    case True
    then obtain g where g: "g \<in> set fs" "name g = k" by blast
    from True have ne: "filter (\<lambda>g. name g = k) fs \<noteq> []"
      by (auto simp: filter_empty_conv)
    from Cons.IH[OF rest g] ne show ?thesis by simp
  next
    case False
    then have emp: "filter (\<lambda>g. name g = k) fs = []"
      by (auto simp: filter_empty_conv)
    from False Cons.prems(2,3) have ak: "name a = k" by auto
    from False have "k \<notin> name ` set fs" by auto
    from field_values_other_key[OF rest this] ak have "d' k = Some (PyStr v)" by simp
    with v emp ak show ?thesis by simp
  qed
qed

subsection \<open>The loop over the children\<close>

lemma transform_items_Inr:
  "transform_items fnd t ics acc = Inr items \<Longrightarrow>
   \<exists>ds. list_all2 (\<lambda>ic d. field_values fnd (fields' t) (snd ic) Map.empty = Inr d) ics ds
       \<and> items = acc @ map2 (\<lambda>ic d. [index_field t \<mapsto> PyInt (int (fst ic))] ++ d) ics ds"
proof (induction ics arbitrary: acc)
  case Nil
  then show ?case by simp
next
  case (Cons ic ics)
  obtain index item where ic: "ic = (index, item)" by (cases ic)
  from Cons.prems ic obtain d where d: "field_values fnd (fields' t) item Map.empty = Inr d"
    and rest: "transform_items fnd t ics (acc @ [[index_field t \<mapsto> PyInt (int index)] ++ d])
                 = Inr items"
    by (auto split: sum.splits)
  from Cons.IH[OF rest] obtain ds where
    ds: "list_all2 (\<lambda>ic d. field_values fnd (fields' t) (snd ic) Map.empty = Inr d) ics ds"
    and items: "items = (acc @ [[index_field t \<mapsto> PyInt (int index)] ++ d])
                  @ map2 (\<lambda>ic d. [index_field t \<mapsto> PyInt (int (fst ic))] ++ d) ics ds"
    by blast
  have "list_all2 (\<lambda>ic d. field_values fnd (fields' t) (snd ic) Map.empty = Inr d)
          (ic # ics) (d # ds)"
    using ds d ic by simp
  moreover have "items = acc @ map2 (\<lambda>ic d. [index_field t \<mapsto> PyInt (int (fst ic))] ++ d)
                                  (ic # ics) (d # ds)"
    using items ic by simp
  ultimately show ?case by blast
qed

lemma transform_items_succeeds:
  "(\<And>ic. ic \<in> set ics \<Longrightarrow> \<exists>d. field_values fnd (fields' t) (snd ic) Map.empty = Inr d) \<Longrightarrow>
   \<exists>items. transform_items fnd t ics acc = Inr items"
proof (induction ics arbitrary: acc)
  case Nil
  then show ?case by simp
next
  case (Cons ic ics)
  obtain index item where ic: "ic = (index, item)" by (cases ic)
  from Cons.prems[of ic] ic obtain d where d: "field_values fnd (fields' t) item Map.empty = Inr d"
    by auto
  have "\<exists>items. transform_items fnd t ics (acc @ [[index_field t \<mapsto> PyInt (int index)] ++ d])
                  = Inr items"
    by (rule Cons.IH) (simp add: Cons.prems)
  with d ic show ?case by simp
qed

lemma transform_items_nth:
  assumes "transform_items fnd t (enumerate 0 cs) [] = Inr items"
  shows "length items = length cs"
    and "i < length cs \<Longrightarrow>
           \<exists>d. field_values fnd (fields' t) (cs ! i) Map.empty = Inr d
              \<and> items ! i = [index_field t \<mapsto> PyInt (int i)] ++ d"
proof -
  from transform_items_Inr[OF assms] obtain ds where
    ds: "list_all2 (\<lambda>ic d. field_values fnd (fields' t) (snd ic) Map.empty = Inr d)
           (enumerate 0 cs) ds"
    and items: "items = map2 (\<lambda>ic d. [index_field t \<mapsto> PyInt (int (fst ic))] ++ d)
                          (enumerate 0 cs) ds"
    by auto
  from ds have len: "length ds = length cs" by (auto dest: list_all2_lengthD)
  with items show "length items = length cs" by simp
  assume i: "i < length cs"
  from list_all2_nthD[OF ds, of i] i
  have "field_values fnd (fields' t) (cs ! i) Map.empty = Inr (ds ! i)"
    by (simp add: nth_enumerate_eq)
  moreover from items i len have "items ! i = [index_field t \<mapsto> PyInt (int i)] ++ (ds ! i)"
    by (simp add: nth_enumerate_eq)
  ultimately show "\<exists>d. field_values fnd (fields' t) (cs ! i) Map.empty = Inr d
            \<and> items ! i = [index_field t \<mapsto> PyInt (int i)] ++ d"
    by blast
qed

subsection \<open>The library's find on plain tags\<close>

lemma children_in_iter: "set (children e) \<subseteq> set (tl (iter e))"
proof (cases e)
  case (Element t a x cs)
  have "c \<in> set (concat (map iter cs))" if "c \<in> set cs" for c
  proof -
    have "c \<in> set (iter c)" by (cases c) simp
    with that show ?thesis by auto
  qed
  with Element show ?thesis by auto
qed

text \<open>
  A node with no element below it that carries the tag has no match for the tag: the
  search for a plain tag looks at the children only.
\<close>

lemma etree_find_no_descendant:
  assumes "plain_tag nm" and "\<forall>c \<in> set (tl (iter node)). tag c \<noteq> nm"
  shows "etree_find node nm = Inr None"
proof -
  from assms(2) children_in_iter[of node] have "\<forall>c \<in> set (children node). tag c \<noteq> nm"
    by blast
  then have "List.find (\<lambda>c. tag c = nm) (children node) = None"
    by (simp add: find_None_iff)
  with assms(1) show ?thesis by (simp add: etree_find_def)
qed

subsection \<open>The scenario of the specification\<close>

text \<open>
  On the document with two items, the attribute \<open>a\<close> and the text of \<open>v\<close> give the
  rows \<open>0, 1, 10\<close> and \<open>1, 2, 20\<close>; with the format \<^verbatim>\<open>.1s\<close> the text is cut to its
  first character.
\<close>

lemma transform_scenario:
  "transform etree_find scenario_transformer items_doc
     = Inr [[''ID'' \<mapsto> PyInt 0, ''a'' \<mapsto> PyStr ''1'', ''v'' \<mapsto> PyStr ''10''],
            [''ID'' \<mapsto> PyInt 1, ''a'' \<mapsto> PyStr ''2'', ''v'' \<mapsto> PyStr ''20'']]"
  by (simp add: items_doc_def scenario_transformer_def FieldExtractor_init_def py_str_def
        get_def extract_field_def find_root_def transform_def etree_find_def plain_tag_def)

lemma from_spec_with_format:
  "(case from_spec py_format ''text:v:.1s'' of
      Inl e \<Rightarrow> Inl e
    | Inr fe \<Rightarrow> extract_field etree_find fe (children (getroot items_doc) ! 1))
   = Inr ''2''"
  by (simp add: from_spec_def pop0_def FieldExtractor_init_def extract_field_def items_doc_def
        etree_find_def plain_tag_def py_format_def precision_template_def startswith_def
        digits_value_def)

section \<open>The claims\<close>

text \<open>
  In all of them \<open>fnd\<close> is the library's \<^verbatim>\<open>find\<close> and \<open>fmt\<close> the library's
  \<^verbatim>\<open>format\<close>, both arbitrary.
\<close>

subsection \<open>C1\<close>

text \<open>
  C1, as amended. When the root is resolved and every field extraction succeeds on
  every child of the root, \<open>transform\<close> returns exactly one record per child, in
  document order: record \<open>i\<close> is the index entry \<open>index_field \<mapsto> i\<close> updated with the
  field values of child \<open>i\<close>, whatever the child's tag, and it maps the index field name
  to \<open>i\<close> when no field carries that name.
\<close>

theorem transform_one_record_per_child:
  assumes root: "find_root fnd t xmldoc = Inr (Some root)"
      and ok: "\<forall>item \<in> set (children root). \<forall>field \<in> set (fields' t).
                 \<exists>v. extract_field fnd field item = Inr v"
  shows "\<exists>items. transform fnd t xmldoc = Inr items
           \<and> length items = length (children root)
           \<and> (\<forall>i < length (children root).
                 (\<exists>d. field_values fnd (fields' t) (children root ! i) Map.empty = Inr d
                      \<and> items ! i = [index_field t \<mapsto> PyInt (int i)] ++ d)
               \<and> (index_field t \<notin> name ` set (fields' t)
                    \<longrightarrow> (items ! i) (index_field t) = Some (PyInt (int i))))"
proof -
  have "\<exists>d. field_values fnd (fields' t) (snd ic) Map.empty = Inr d"
    if "ic \<in> set (enumerate 0 (children root))" for ic
  proof (rule field_values_succeeds)
    fix f assume "f \<in> set (fields' t)"
    moreover have "snd ic \<in> set (children root)"
    proof -
      from that have "fst ic < length (children root)" "children root ! fst ic = snd ic"
        by (simp_all add: in_set_enumerate_eq)
      then show ?thesis using nth_mem by fastforce
    qed
    ultimately show "\<exists>v. extract_field fnd f (snd ic) = Inr v"
      using ok by blast
  qed
  from transform_items_succeeds[of "enumerate 0 (children root)" fnd t "[]", OF this]
  obtain items where items: "transform_items fnd t (enumerate 0 (children root)) [] = Inr items"
    by blast
  have run: "transform fnd t xmldoc = Inr items"
    using root items by (simp add: transform_def)
  have len: "length items = length (children root)"
    by (rule transform_items_nth(1)[OF items])
  have each: "(\<exists>d. field_values fnd (fields' t) (children root ! i) Map.empty = Inr d
                      \<and> items ! i = [index_field t \<mapsto> PyInt (int i)] ++ d)
               \<and> (index_field t \<notin> name ` set (fields' t)
                    \<longrightarrow> (items ! i) (index_field t) = Some (PyInt (int i)))"
    if i: "i < length (children root)" for i
  proof -
    from transform_items_nth(2)[OF items i] obtain d where
      d: "field_values fnd (fields' t) (children root ! i) Map.empty = Inr d"
      and rec: "items ! i = [index_field t \<mapsto> PyInt (int i)] ++ d"
      by blast
    have "(items ! i) (index_field t) = Some (PyInt (int i))"
      if "index_field t \<notin> name ` set (fields' t)"
    proof -
      from field_values_other_key[OF d that] have "d (index_field t) = None" by simp
      with rec show ?thesis by (simp add: map_add_def)
    qed
    with d rec show ?thesis by blast
  qed
  from run len each show ?thesis by blast
qed

text \<open>
  The two children of this root have different tags, and both count: the attribute
  \<open>a\<close> gives one record for each, numbered \<open>0\<close> and \<open>1\<close>.
\<close>

theorem transform_one_record_per_child_witness:
  "find_root etree_find attrib_transformer partial_doc = Inr (Some (getroot partial_doc))
   \<and> map tag (children (getroot partial_doc)) = [''item'', ''other'']
   \<and> extract_field etree_find (FieldExtractor_init py_format ''attrib'' ''a'' None)
         (children (getroot partial_doc) ! 0) = Inr ''1''
   \<and> extract_field etree_find (FieldExtractor_init py_format ''attrib'' ''a'' None)
         (children (getroot partial_doc) ! 1) = Inr ''2''
   \<and> transform etree_find attrib_transformer partial_doc
       = Inr [[''ID'' \<mapsto> PyInt 0, ''a'' \<mapsto> PyStr ''1''],
              [''ID'' \<mapsto> PyInt 1, ''a'' \<mapsto> PyStr ''2'']]"
  using transform_one_record_per_child
    [of etree_find attrib_transformer partial_doc "getroot partial_doc"]
  by (simp add: partial_doc_def attrib_transformer_def FieldExtractor_init_def py_str_def
        get_def extract_field_def find_root_def transform_def)

text \<open>
  The claim as it is written fails twice on the same document, whose root has two
  children: with a text field that no child has, \<open>transform\<close> raises and returns no
  record; with a field named like the index field, it returns two records, neither of
  which maps that name to an index.
\<close>

theorem transform_index_claim_counterexample:
  "length (children (getroot items_doc)) = 2
   \<and> transform etree_find missing_transformer items_doc = Inl (KeyError ''missing'')
   \<and> transform etree_find clash_transformer items_doc
       = Inr [[''a'' \<mapsto> PyStr ''1''], [''a'' \<mapsto> PyStr ''2'']]"
  by (simp add: items_doc_def missing_transformer_def clash_transformer_def
        FieldExtractor_init_def py_str_def get_def extract_field_def find_root_def
        transform_def etree_find_def plain_tag_def)

subsection \<open>C2\<close>

text \<open>
  C2. For an extractor whose source is \<open>text\<close> and a node on which \<^verbatim>\<open>find\<close> has no
  match for the extractor's name, \<open>extract\<close> raises \<open>KeyError\<close> with the field name,
  whatever the formatter.
\<close>

theorem extract_text_missing:
  assumes "source fe = ''text''" and "fnd node (name fe) = Inr None"
  shows "extract_field fnd fe node = Inl (KeyError (name fe))"
  using assms by (simp add: extract_field_def)

theorem extract_text_missing_witness:
  "source (FieldExtractor_init py_format ''text'' ''missing'' None) = ''text''
   \<and> etree_find (Element ''item'' [(''a'', ''1'')] None [Element ''v'' [] (Some ''10'') []])
         (name (FieldExtractor_init py_format ''text'' ''missing'' None)) = Inr None
   \<and> extract_field etree_find (FieldExtractor_init py_format ''text'' ''missing'' None)
         (Element ''item'' [(''a'', ''1'')] None [Element ''v'' [] (Some ''10'') []])
       = Inl (KeyError ''missing'')"
  using extract_text_missing
    [of "FieldExtractor_init py_format ''text'' ''missing'' None" etree_find
        "Element ''item'' [(''a'', ''1'')] None [Element ''v'' [] (Some ''10'') []]"]
  by (simp add: FieldExtractor_init_def etree_find_def plain_tag_def)

subsection \<open>C3\<close>

text \<open>
  C3. For an extractor constructed with source \<open>attrib\<close> and no format, and a node
  without that attribute, \<open>extract\<close> raises nothing and returns the string \<open>None\<close>.
\<close>

theorem extract_attrib_missing:
  assumes "get node nm = None"
  shows "extract_field fnd (FieldExtractor_init fmt ''attrib'' nm None) node = Inr ''None''"
  using assms by (simp add: extract_field_def FieldExtractor_init_def py_str_def)

theorem extract_attrib_missing_witness:
  "get (Element ''item'' [(''a'', ''1'')] None []) ''missing'' = None
   \<and> extract_field etree_find (FieldExtractor_init py_format ''attrib'' ''missing'' None)
         (Element ''item'' [(''a'', ''1'')] None []) = Inr ''None''"
  using extract_attrib_missing
    [of "Element ''item'' [(''a'', ''1'')] None []" "''missing''" etree_find py_format]
  by (simp add: get_def)

subsection \<open>C4\<close>

text \<open>
  C4. A field specification that splits on the colon into fewer than two parts makes
  \<open>from_spec\<close> raise: the second \<^verbatim>\<open>pop(0)\<close> finds the list empty, which is an
  \<open>IndexError\<close>.
\<close>

theorem from_spec_missing_name:
  assumes "length (str_split CHR '':'' field_spec) < 2"
  shows "from_spec fmt field_spec = Inl IndexError"
proof (cases "str_split CHR '':'' field_spec")
  case Nil
  then show ?thesis by (simp add: from_spec_def pop0_def)
next
  case (Cons value_source parts1)
  with assms have "parts1 = []" by simp
  with Cons show ?thesis by (simp add: from_spec_def pop0_def)
qed

theorem from_spec_missing_name_witness:
  "length (str_split CHR '':'' ''attrib'') < 2
   \<and> from_spec py_format ''attrib'' = Inl IndexError"
  using from_spec_missing_name [of "''attrib''" py_format]
  by simp

subsection \<open>C5\<close>

text \<open>
  C5. When the transformer has a root path and \<^verbatim>\<open>find\<close> has no match for it from
  the document's root, \<open>transform\<close> raises \<open>TypeError\<close>, whatever the fields are: the
  loop over the children is never entered and no record is returned.
\<close>

theorem transform_root_missing:
  assumes "root_path t = Some p" and "fnd (getroot xmldoc) p = Inr None"
  shows "transform fnd t xmldoc = Inl TypeError"
  using assms by (simp add: transform_def find_root_def)

theorem transform_root_missing_witness:
  "root_path (scenario_transformer\<lparr>root_path := Some ''.//nothere''\<rparr>) = Some ''.//nothere''
   \<and> etree_find (getroot items_doc) ''.//nothere'' = Inr None
   \<and> transform etree_find (scenario_transformer\<lparr>root_path := Some ''.//nothere''\<rparr>) items_doc
       = Inl TypeError"
  using transform_root_missing
    [of "scenario_transformer\<lparr>root_path := Some ''.//nothere''\<rparr>" "''.//nothere''"
        etree_find items_doc]
  by (simp add: items_doc_def etree_find_def plain_tag_def startswith_def)

subsection \<open>C6\<close>

text \<open>
  C6. When the extraction of some field fails on some child of the root, \<open>transform\<close>
  raises: its result is an exception and not a list of records, so no record of an
  earlier child is returned and no child is skipped.
\<close>

theorem transform_all_or_nothing:
  assumes root: "find_root fnd t xmldoc = Inr (Some root)"
      and item: "item \<in> set (children root)"
      and field: "field \<in> set (fields' t)"
      and fails: "extract_field fnd field item = Inl e"
  shows "\<exists>e'. transform fnd t xmldoc = Inl e'"
proof (cases "transform fnd t xmldoc")
  case (Inl e')
  then show ?thesis by blast
next
  case (Inr items)
  with root have items: "transform_items fnd t (enumerate 0 (children root)) [] = Inr items"
    by (simp add: transform_def)
  from item obtain i where i: "i < length (children root)" "children root ! i = item"
    by (auto simp: in_set_conv_nth)
  from transform_items_nth(2)[OF items i(1)] i(2) obtain d where
    "field_values fnd (fields' t) item Map.empty = Inr d" by auto
  from field_values_all_extracted[OF this field] fails show ?thesis by simp
qed

text \<open>
  The first child has the element \<open>v\<close> and the second has not: the run raises although
  the first child's record could be built.
\<close>

theorem transform_all_or_nothing_witness:
  "find_root etree_find scenario_transformer partial_doc = Inr (Some (getroot partial_doc))
   \<and> Element ''other'' [(''a'', ''2'')] None [] \<in> set (children (getroot partial_doc))
   \<and> FieldExtractor_init py_format ''text'' ''v'' None \<in> set (fields' scenario_transformer)
   \<and> extract_field etree_find (FieldExtractor_init py_format ''text'' ''v'' None)
         (Element ''other'' [(''a'', ''2'')] None []) = Inl (KeyError ''v'')
   \<and> transform etree_find scenario_transformer partial_doc = Inl (KeyError ''v'')"
  using transform_all_or_nothing
    [of etree_find scenario_transformer partial_doc "getroot partial_doc"
        "Element ''other'' [(''a'', ''2'')] None []"
        "FieldExtractor_init py_format ''text'' ''v'' None" "KeyError ''v''"]
  by (simp add: partial_doc_def scenario_transformer_def FieldExtractor_init_def py_str_def
        get_def extract_field_def find_root_def transform_def etree_find_def plain_tag_def)

subsection \<open>C7\<close>

text \<open>
  C7. For every index field name and every list of field specifications that
  \<open>from_spec\<close> accepts, the transformer is constructed and \<open>field_names\<close> is the index
  field name followed by the name part of each specification, once each, in the order
  given.
\<close>

theorem field_names_order:
  assumes "\<forall>field_spec \<in> set field_specs. \<exists>fe. from_spec fmt field_spec = Inr fe"
  shows "\<exists>t. XMLDocTransformer_init fmt idx field_specs rp = Inr t
           \<and> field_names t
               = idx # map (\<lambda>field_spec. str_split CHR '':'' field_spec ! 1) field_specs"
proof -
  from assms from_specs_succeeds[of field_specs fmt]
  obtain fes where fes: "from_specs fmt field_specs = Inr fes" by blast
  from from_specs_names[OF fes] fes show ?thesis
    by (simp add: XMLDocTransformer_init_def field_names_def)
qed

theorem field_names_order_witness:
  "from_spec py_format ''attrib:a'' = Inr (FieldExtractor_init py_format ''attrib'' ''a'' None)
   \<and> from_spec py_format ''text:v'' = Inr (FieldExtractor_init py_format ''text'' ''v'' None)
   \<and> XMLDocTransformer_init py_format ''ID'' [''attrib:a'', ''text:v''] None
       = Inr scenario_transformer
   \<and> field_names scenario_transformer = [''ID'', ''a'', ''v'']"
  using field_names_order [of "[''attrib:a'', ''text:v'']" py_format "''ID''" None]
  by (simp add: XMLDocTransformer_init_def from_spec_def pop0_def scenario_transformer_def
        field_names_def FieldExtractor_init_def)

subsection \<open>C8\<close>

text \<open>
  C8. The constructor stores a non-empty root path that does not start with \<open>.//\<close>
  with \<open>.//\<close> put in front of it, and stores unchanged a root path that starts with
  \<open>.//\<close>, the empty root path and the absent root path.
\<close>

theorem root_path_normalized:
  assumes "XMLDocTransformer_init fmt idx field_specs rp = Inr t"
  shows "(\<forall>p. rp = Some p \<and> p \<noteq> [] \<and> \<not> startswith p ''.//''
              \<longrightarrow> root_path t = Some (''.//'' @ p))
       \<and> (\<forall>p. rp = Some p \<and> startswith p ''.//'' \<longrightarrow> root_path t = Some p)
       \<and> (rp = Some [] \<longrightarrow> root_path t = Some [])
       \<and> (rp = None \<longrightarrow> root_path t = None)"
  using assms
  by (auto simp: XMLDocTransformer_init_def split: sum.splits)

text \<open>One construction for each of the four cases.\<close>

theorem root_path_normalized_witness:
  "XMLDocTransformer_init py_format ''ID'' [] (Some ''reg_areas'')
     = Inr \<lparr>index_field = ''ID'', fields' = [], root_path = Some ''.//reg_areas''\<rparr>
   \<and> XMLDocTransformer_init py_format ''ID'' [] (Some ''.//reg_areas'')
     = Inr \<lparr>index_field = ''ID'', fields' = [], root_path = Some ''.//reg_areas''\<rparr>
   \<and> XMLDocTransformer_init py_format ''ID'' [] (Some [])
     = Inr \<lparr>index_field = ''ID'', fields' = [], root_path = Some []\<rparr>
   \<and> XMLDocTransformer_init py_format ''ID'' [] None
     = Inr \<lparr>index_field = ''ID'', fields' = [], root_path = None\<rparr>"
  using root_path_normalized
    [of py_format "''ID''" "[]" "Some ''reg_areas''"
        "\<lparr>index_field = ''ID'', fields' = [], root_path = Some ''.//reg_areas''\<rparr>"]
    root_path_normalized
    [of py_format "''ID''" "[]" "Some ''.//reg_areas''"
        "\<lparr>index_field = ''ID'', fields' = [], root_path = Some ''.//reg_areas''\<rparr>"]
    root_path_normalized
    [of py_format "''ID''" "[]" "Some []"
        "\<lparr>index_field = ''ID'', fields' = [], root_path = Some []\<rparr>"]
    root_path_normalized
    [of py_format "''ID''" "[]" None
        "\<lparr>index_field = ''ID'', fields' = [], root_path = None\<rparr>"]
  by (simp add: XMLDocTransformer_init_def startswith_def)

subsection \<open>C9\<close>

text \<open>
  C9. On every transformer the property \<^verbatim>\<open>index_field\<close> raises \<open>AttributeError\<close>:
  it reads \<^verbatim>\<open>_index_field_name\<close>, which is neither among the attributes the
  constructor assigns nor a member of the class.
\<close>

theorem index_field_property_fails:
  "index_field_property t = Inl (AttributeError ''_index_field_name'')"
  by (simp add: index_field_property_def getattr_def instance_dict_def class_members_def)

subsection \<open>C10\<close>

text \<open>
  C10. When a field of the transformer has the index field's name, every record that
  \<open>transform\<close> returns maps that name to the string extracted by the field (by the last
  one, if several fields have the name) from the record's child, and not to the index.
\<close>

theorem index_overwritten_by_field:
  assumes root: "find_root fnd t xmldoc = Inr (Some root)"
      and run: "transform fnd t xmldoc = Inr items"
      and field: "field \<in> set (fields' t)" "name field = index_field t"
      and i: "i < length items"
  shows "\<exists>v. extract_field fnd (last (filter (\<lambda>f. name f = index_field t) (fields' t)))
                 (children root ! i) = Inr v
             \<and> (items ! i) (index_field t) = Some (PyStr v)
             \<and> (items ! i) (index_field t) \<noteq> Some (PyInt (int i))"
proof -
  from root run have items: "transform_items fnd t (enumerate 0 (children root)) [] = Inr items"
    by (simp add: transform_def)
  from transform_items_nth(1)[OF items] i have i': "i < length (children root)" by simp
  from transform_items_nth(2)[OF items i'] obtain d where
    d: "field_values fnd (fields' t) (children root ! i) Map.empty = Inr d"
    and rec: "items ! i = [index_field t \<mapsto> PyInt (int i)] ++ d"
    by blast
  from field_values_last_wins[OF d field] obtain v where
    v: "extract_field fnd (last (filter (\<lambda>f. name f = index_field t) (fields' t)))
          (children root ! i) = Inr v"
    and dv: "d (index_field t) = Some (PyStr v)"
    by blast
  from rec dv have "(items ! i) (index_field t) = Some (PyStr v)"
    by (simp add: map_add_def)
  with v show ?thesis by auto
qed

theorem index_overwritten_by_field_witness:
  "find_root etree_find clash_transformer items_doc = Inr (Some (getroot items_doc))
   \<and> transform etree_find clash_transformer items_doc
       = Inr [[''a'' \<mapsto> PyStr ''1''], [''a'' \<mapsto> PyStr ''2'']]
   \<and> FieldExtractor_init py_format ''attrib'' ''a'' None \<in> set (fields' clash_transformer)
   \<and> name (FieldExtractor_init py_format ''attrib'' ''a'' None) = index_field clash_transformer
   \<and> (1::nat) < length [[''a'' \<mapsto> PyStr ''1''], [''a'' \<mapsto> PyStr ''2'']]
   \<and> extract_field etree_find (FieldExtractor_init py_format ''attrib'' ''a'' None)
         (children (getroot items_doc) ! 1) = Inr ''2''"
  using index_overwritten_by_field
    [of etree_find clash_transformer items_doc "getroot items_doc"
        "[[''a'' \<mapsto> PyStr ''1''], [''a'' \<mapsto> PyStr ''2'']]"
        "FieldExtractor_init py_format ''attrib'' ''a'' None" 1]
  by (simp add: items_doc_def clash_transformer_def FieldExtractor_init_def py_str_def
        get_def extract_field_def find_root_def transform_def etree_find_def plain_tag_def)

end
